theory Spec2Isabelle
  imports Main
begin

section \<open>Status values\<close>

text \<open>
  Modelled from the spec: \<^verbatim>\<open>util::error::Code\<close>, \<^verbatim>\<open>util::Status\<close> and
  \<^verbatim>\<open>util::StatusOr\<close> are declared in headers that are not among the sources. The
  spec distinguishes the invalid-input kind from the errors propagated from
  collaborators; the code names \<^verbatim>\<open>INVALID_ARGUMENT\<close> and tests \<^verbatim>\<open>ok()\<close>. A status
  is a code with a message, and it is ok exactly when its code is \<open>OK\<close>. The codes are
  the canonical status codes: the operations below produce \<open>INVALID_ARGUMENT\<close> only, and
  a collaborator may return any of them.
\<close>

datatype Code =
    OK | CANCELLED | UNKNOWN | INVALID_ARGUMENT | DEADLINE_EXCEEDED | NOT_FOUND
  | ALREADY_EXISTS | PERMISSION_DENIED | RESOURCE_EXHAUSTED | FAILED_PRECONDITION
  | ABORTED | OUT_OF_RANGE | UNIMPLEMENTED | INTERNAL | UNAVAILABLE | DATA_LOSS

datatype Status = Status (error_code: Code) (error_message: string)

definition ok :: "Status \<Rightarrow> bool" where
  "ok s = (error_code s = OK)"

text \<open>
  \<^verbatim>\<open>StatusOr<T>\<close> holds either a status that is not ok or a value: \<open>Inl\<close> is the
  status, \<open>Inr\<close> the value. \<^verbatim>\<open>if (!r.ok()) return r.status();\<close> is the \<open>Inl\<close> branch
  of a case distinction.
\<close>

type_synonym 'a StatusOr = "Status + 'a"

text \<open>
  \<^verbatim>\<open>std::string::c_str()\<close> read through \<^verbatim>\<open>%s\<close>: the characters before the first
  NUL.
\<close>

definition c_str :: "string \<Rightarrow> string" where
  "c_str s = takeWhile (\<lambda>c. c \<noteq> CHR 0x00) s"

text \<open>
  Modelled from the spec: \<^verbatim>\<open>ToStatusF\<close> is declared in \<^verbatim>\<open>tink/util/errors.h\<close>, not
  among the sources. Every format string of this file is a fixed text followed by one
  \<^verbatim>\<open>%s\<close>; the spec says the resulting error carries the underlying message. The
  second argument is the fixed text, the third the string printed for \<^verbatim>\<open>%s\<close>.
\<close>

definition ToStatusF :: "Code \<Rightarrow> string \<Rightarrow> string \<Rightarrow> Status" where
  "ToStatusF code text arg = Status code (text @ arg)"

section \<open>Wire records\<close>

text \<open>
  Modelled from the spec: the records of \<^verbatim>\<open>proto/tink.pb.h\<close> are not among the
  sources. The spec gives their shape: Keyset = {key: ordered list of KeyEntry,
  primary_key_id: integer}; KeyEntry = {key_id, status, key_data: {type_url, value:
  bytes, key_material_type}} with an output-format preference; EncryptedKeyset =
  {encrypted_keyset: bytes}; the material classification is symmetric,
  asymmetric-private, asymmetric-public or unknown. A \<^verbatim>\<open>std::string\<close> is a
  \<open>string\<close> (a list of bytes). The status flag and the output-format preference are
  enumerations this file never inspects: they are kept as their numeric values.
  The field \<^verbatim>\<open>value\<close> of KeyData is named \<open>key_value\<close>.
\<close>

datatype KeyMaterialType =
  UNKNOWN_KEYMATERIAL | SYMMETRIC | ASYMMETRIC_PRIVATE | ASYMMETRIC_PUBLIC

record KeyData =
  type_url :: string
  key_value :: string
  key_material_type :: KeyMaterialType

record Key =
  key_data :: KeyData
  status :: nat
  key_id :: int
  output_prefix_type :: nat

record Keyset =
  primary_key_id :: int
  key :: "Key list"

record EncryptedKeyset =
  encrypted_keyset :: string

text \<open>A default-constructed message: every field has its default value.\<close>

definition new_KeyData :: KeyData where
  "new_KeyData = \<lparr>type_url = [], key_value = [], key_material_type = UNKNOWN_KEYMATERIAL\<rparr>"

definition new_Key :: Key where
  "new_Key = \<lparr>key_data = new_KeyData, status = 0, key_id = 0, output_prefix_type = 0\<rparr>"

definition new_Keyset :: Keyset where
  "new_Keyset = \<lparr>primary_key_id = 0, key = []\<rparr>"

text \<open>
  \<^verbatim>\<open>a->Swap(b)\<close> exchanges the contents of the two messages: the pair returned is
  the new content of \<^verbatim>\<open>*a\<close> and the new content of \<^verbatim>\<open>*b\<close>.
\<close>

definition Swap :: "'a \<Rightarrow> 'a \<Rightarrow> 'a \<times> 'a" where
  "Swap a b = (b, a)"

text \<open>
  The byte encoding of a Keyset (\<^verbatim>\<open>SerializeAsString\<close>, \<^verbatim>\<open>ParseFromString\<close>) belongs
  to the generated protobuf code, which is not among the sources: it is a parameter of
  the operations. \<^verbatim>\<open>ParseFromString\<close> returns false on bytes that are not a Keyset:
  that is \<open>None\<close>.
\<close>

record KeysetCodec =
  SerializeAsString :: "Keyset \<Rightarrow> string"
  ParseFromString :: "string \<Rightarrow> Keyset option"

section \<open>Collaborators\<close>

text \<open>
  The collaborators are parameters. An \<^verbatim>\<open>Aead\<close> offers \<^verbatim>\<open>Encrypt(plaintext,
  associated_data)\<close> and \<^verbatim>\<open>Decrypt(ciphertext, associated_data)\<close>; a
  \<^verbatim>\<open>KeysetReader\<close> offers \<^verbatim>\<open>ReadEncrypted()\<close>; a \<^verbatim>\<open>KeysetWriter\<close> offers
  \<^verbatim>\<open>Write(encrypted_keyset)\<close>; the registry offers \<^verbatim>\<open>GetPublicKeyData(type_url,
  value)\<close>. A \<^verbatim>\<open>KeysetWriter*\<close> may be null: it is a \<open>KeysetWriter option\<close>.
\<close>

record Aead =
  Aead_Encrypt :: "string \<Rightarrow> string \<Rightarrow> string StatusOr"
  Aead_Decrypt :: "string \<Rightarrow> string \<Rightarrow> string StatusOr"

record KeysetReader =
  ReadEncrypted :: "EncryptedKeyset StatusOr"

record KeysetWriter =
  Writer_Write :: "EncryptedKeyset \<Rightarrow> Status"

type_synonym Registry = "string \<Rightarrow> string \<Rightarrow> KeyData StatusOr"


text \<open>
  The calls an operation makes on the reader, the writer and the AEAD, in the order in
  which it makes them, with their arguments. A call of a collaborator returns what the
  collaborator returns, together with the record of the call; every operation below
  returns its result together with the records of the calls it has made.
\<close>

datatype Call =
    Call_ReadEncrypted
  | Call_Decrypt string string
  | Call_Encrypt string string
  | Call_Write EncryptedKeyset

definition call_ReadEncrypted :: "KeysetReader \<Rightarrow> EncryptedKeyset StatusOr \<times> Call list" where
  "call_ReadEncrypted reader = (ReadEncrypted reader, [Call_ReadEncrypted])"

definition call_Decrypt :: "Aead \<Rightarrow> string \<Rightarrow> string \<Rightarrow> string StatusOr \<times> Call list" where
  "call_Decrypt aead ciphertext associated_data =
     (Aead_Decrypt aead ciphertext associated_data, [Call_Decrypt ciphertext associated_data])"

definition call_Encrypt :: "Aead \<Rightarrow> string \<Rightarrow> string \<Rightarrow> string StatusOr \<times> Call list" where
  "call_Encrypt aead plaintext associated_data =
     (Aead_Encrypt aead plaintext associated_data, [Call_Encrypt plaintext associated_data])"

definition call_Write :: "KeysetWriter \<Rightarrow> EncryptedKeyset \<Rightarrow> Status \<times> Call list" where
  "call_Write writer enc_keyset = (Writer_Write writer enc_keyset, [Call_Write enc_keyset])"

section \<open>The keyset handle\<close>

text \<open>The member \<^verbatim>\<open>keyset_\<close> is named \<open>keyset_member\<close>.\<close>

record KeysetHandle =
  keyset_member :: Keyset

definition get_keyset :: "KeysetHandle \<Rightarrow> Keyset" where
  "get_keyset this = keyset_member this"

subsection \<open>Envelope encryption\<close>

definition Encrypt :: "KeysetCodec \<Rightarrow> Keyset \<Rightarrow> Aead \<Rightarrow> EncryptedKeyset StatusOr \<times> Call list" where
  "Encrypt pb keyset master_key_aead =
     (case call_Encrypt master_key_aead (SerializeAsString pb keyset) [] of
        (Inl st, calls) \<Rightarrow> (Inl st, calls)
      | (Inr ciphertext, calls) \<Rightarrow> (Inr \<lparr>encrypted_keyset = ciphertext\<rparr>, calls))"

definition Decrypt :: "KeysetCodec \<Rightarrow> EncryptedKeyset \<Rightarrow> Aead \<Rightarrow> Keyset StatusOr \<times> Call list" where
  "Decrypt pb enc_keyset master_key_aead =
     (case call_Decrypt master_key_aead (encrypted_keyset enc_keyset) [] of
        (Inl st, calls) \<Rightarrow> (Inl st, calls)
      | (Inr plaintext, calls) \<Rightarrow>
          (case ParseFromString pb plaintext of
             None \<Rightarrow>
               (Inl (Status INVALID_ARGUMENT
                       ''Could not parse the decrypted data as a Keyset-proto.''), calls)
           | Some keyset \<Rightarrow> (Inr keyset, calls)))"

definition Read :: "KeysetCodec \<Rightarrow> KeysetReader \<Rightarrow> Aead \<Rightarrow> KeysetHandle StatusOr \<times> Call list" where
  "Read pb reader master_key_aead =
     (case call_ReadEncrypted reader of
        (Inl st, calls) \<Rightarrow>
          (Inl (ToStatusF INVALID_ARGUMENT ''Error reading encrypted keyset data: ''
                  (c_str (error_message st))),
           calls)
      | (Inr enc_keyset, calls) \<Rightarrow>
          (case Decrypt pb enc_keyset master_key_aead of
             (Inl st, more_calls) \<Rightarrow>
               (Inl (ToStatusF INVALID_ARGUMENT ''Error decrypting encrypted keyset: ''
                       (c_str (error_message st))),
                calls @ more_calls)
           | (Inr keyset, more_calls) \<Rightarrow>
               (Inr \<lparr>keyset_member = keyset\<rparr>, calls @ more_calls)))"

definition Write :: "KeysetCodec \<Rightarrow> KeysetHandle \<Rightarrow> KeysetWriter option \<Rightarrow> Aead \<Rightarrow> Status \<times> Call list" where
  "Write pb this writer master_key_aead =
     (case writer of
        None \<Rightarrow> (Status INVALID_ARGUMENT ''Writer must be non-null'', [])
      | Some w \<Rightarrow>
          (case Encrypt pb (get_keyset this) master_key_aead of
             (Inl st, calls) \<Rightarrow>
               (ToStatusF INVALID_ARGUMENT ''Encryption of the keyset failed: ''
                  (c_str (error_message st)),
                calls)
           | (Inr enc_keyset, calls) \<Rightarrow>
               (case call_Write w enc_keyset of
                  (write_status, more_calls) \<Rightarrow> (write_status, calls @ more_calls))))"

subsection \<open>Public keyset\<close>

definition ExtractPublicKey :: "Registry \<Rightarrow> Key \<Rightarrow> Key StatusOr" where
  "ExtractPublicKey GetPublicKeyData k =
     (if key_material_type (key_data k) \<noteq> ASYMMETRIC_PRIVATE then
        Inl (Status INVALID_ARGUMENT
               ''Key material is not of type KeyData::ASYMMETRIC_PRIVATE'')
      else
        (case GetPublicKeyData (type_url (key_data k)) (key_value (key_data k)) of
           Inl st \<Rightarrow> Inl st
         | Inr key_data_result \<Rightarrow>
             (let public_key = k;
                  (public_key_data, old_key_data) = Swap (key_data public_key) key_data_result
              in Inr (public_key\<lparr>key_data := public_key_data\<rparr>))))"

text \<open>
  The loop of \<^verbatim>\<open>GetPublicKeysetHandle\<close> over the keys that are left, with the public
  keyset built so far. \<^verbatim>\<open>add_key()\<close> appends a default-constructed key, which is then
  swapped with the extracted one.
\<close>

fun GetPublicKeysetHandle_loop :: "Registry \<Rightarrow> Key list \<Rightarrow> Keyset \<Rightarrow> Keyset StatusOr" where
  "GetPublicKeysetHandle_loop GetPublicKeyData [] public_keyset = Inr public_keyset"
| "GetPublicKeysetHandle_loop GetPublicKeyData (k # ks) public_keyset =
     (case ExtractPublicKey GetPublicKeyData k of
        Inl st \<Rightarrow> Inl st
      | Inr public_key \<Rightarrow>
          (let (added_key, moved_from) = Swap new_Key public_key
           in GetPublicKeysetHandle_loop GetPublicKeyData ks
                (public_keyset\<lparr>key := key public_keyset @ [added_key]\<rparr>)))"

definition GetPublicKeysetHandle :: "Registry \<Rightarrow> KeysetHandle \<Rightarrow> KeysetHandle StatusOr" where
  "GetPublicKeysetHandle GetPublicKeyData this =
     (case GetPublicKeysetHandle_loop GetPublicKeyData (key (get_keyset this)) new_Keyset of
        Inl st \<Rightarrow> Inl st
      | Inr public_keyset \<Rightarrow>
          Inr \<lparr>keyset_member =
                 public_keyset\<lparr>primary_key_id := primary_key_id (get_keyset this)\<rparr>\<rparr>)"

subsection \<open>Public keyset, on a store of objects\<close>

text \<open>
  The same two functions once more, with the objects they allocate, read and write made
  explicit. A store maps addresses to objects; the addresses below its next address are
  the ones allocated so far. \<^verbatim>\<open>new\<close> and \<^verbatim>\<open>make_unique\<close> take the next address,
  and an object whose owning pointer goes out of scope is released. A
  reference to a key is an element of the keyset of a handle (the reference \<^verbatim>\<open>key\<close> of
  the loop), an element of a Keyset object (what \<^verbatim>\<open>add_key()\<close> returns) or a Key
  object of its own (\<^verbatim>\<open>*public_key\<close>); a reference to key data is the key data of a key
  (\<^verbatim>\<open>mutable_key_data()\<close>) or a KeyData object of its own (the registry's result).
  \<^verbatim>\<open>Swap\<close> reads both references and writes both. An operation whose reference does
  not point to an object of the right kind has no result (\<open>None\<close>).
\<close>

datatype Object =
    Handle_Object KeysetHandle
  | Keyset_Object Keyset
  | Key_Object Key
  | KeyData_Object KeyData

record Store =
  objects :: "nat \<Rightarrow> Object option"
  next_address :: nat

definition allocate :: "Object \<Rightarrow> Store \<Rightarrow> nat \<times> Store" where
  "allocate obj s =
     (next_address s,
      s\<lparr>objects := (objects s)(next_address s \<mapsto> obj), next_address := Suc (next_address s)\<rparr>)"

definition release :: "nat \<Rightarrow> Store \<Rightarrow> Store" where
  "release a s = s\<lparr>objects := (objects s)(a := None)\<rparr>"

datatype Key_ref = Key_of_handle nat nat | Key_of_keyset nat nat | Key_at nat

datatype KeyData_ref = KeyData_of_key Key_ref | KeyData_at nat

fun read_Key :: "Store \<Rightarrow> Key_ref \<Rightarrow> Key option" where
  "read_Key s (Key_of_handle a i) =
     (case objects s a of
        Some (Handle_Object h) \<Rightarrow>
          if i < length (key (get_keyset h)) then Some (key (get_keyset h) ! i) else None
      | _ \<Rightarrow> None)"
| "read_Key s (Key_of_keyset a i) =
     (case objects s a of
        Some (Keyset_Object ks) \<Rightarrow> if i < length (key ks) then Some (key ks ! i) else None
      | _ \<Rightarrow> None)"
| "read_Key s (Key_at a) =
     (case objects s a of Some (Key_Object k) \<Rightarrow> Some k | _ \<Rightarrow> None)"

fun write_Key :: "Key_ref \<Rightarrow> Key \<Rightarrow> Store \<Rightarrow> Store" where
  "write_Key (Key_of_handle a i) k s =
     (case objects s a of
        Some (Handle_Object h) \<Rightarrow>
          s\<lparr>objects := (objects s)(a \<mapsto>
               Handle_Object (h\<lparr>keyset_member :=
                 (keyset_member h)\<lparr>key := (key (keyset_member h))[i := k]\<rparr>\<rparr>))\<rparr>
      | _ \<Rightarrow> s)"
| "write_Key (Key_of_keyset a i) k s =
     (case objects s a of
        Some (Keyset_Object ks) \<Rightarrow>
          s\<lparr>objects := (objects s)(a \<mapsto> Keyset_Object (ks\<lparr>key := (key ks)[i := k]\<rparr>))\<rparr>
      | _ \<Rightarrow> s)"
| "write_Key (Key_at a) k s =
     (case objects s a of
        Some (Key_Object old) \<Rightarrow> s\<lparr>objects := (objects s)(a \<mapsto> Key_Object k)\<rparr>
      | _ \<Rightarrow> s)"

fun read_KeyData :: "Store \<Rightarrow> KeyData_ref \<Rightarrow> KeyData option" where
  "read_KeyData s (KeyData_of_key r) =
     (case read_Key s r of Some k \<Rightarrow> Some (key_data k) | None \<Rightarrow> None)"
| "read_KeyData s (KeyData_at a) =
     (case objects s a of Some (KeyData_Object kd) \<Rightarrow> Some kd | _ \<Rightarrow> None)"

fun write_KeyData :: "KeyData_ref \<Rightarrow> KeyData \<Rightarrow> Store \<Rightarrow> Store" where
  "write_KeyData (KeyData_of_key r) kd s =
     (case read_Key s r of Some k \<Rightarrow> write_Key r (k\<lparr>key_data := kd\<rparr>) s | None \<Rightarrow> s)"
| "write_KeyData (KeyData_at a) kd s =
     (case objects s a of
        Some (KeyData_Object old) \<Rightarrow> s\<lparr>objects := (objects s)(a \<mapsto> KeyData_Object kd)\<rparr>
      | _ \<Rightarrow> s)"

definition Swap_Key :: "Key_ref \<Rightarrow> Key_ref \<Rightarrow> Store \<Rightarrow> Store option" where
  "Swap_Key this other s =
     (case (read_Key s this, read_Key s other) of
        (Some a, Some b) \<Rightarrow>
          (let (new_this, new_other) = Swap a b
           in Some (write_Key other new_other (write_Key this new_this s)))
      | _ \<Rightarrow> None)"

definition Swap_KeyData :: "KeyData_ref \<Rightarrow> KeyData_ref \<Rightarrow> Store \<Rightarrow> Store option" where
  "Swap_KeyData this other s =
     (case (read_KeyData s this, read_KeyData s other) of
        (Some a, Some b) \<Rightarrow>
          (let (new_this, new_other) = Swap a b
           in Some (write_KeyData other new_other (write_KeyData this new_this s)))
      | _ \<Rightarrow> None)"

definition add_key :: "nat \<Rightarrow> Store \<Rightarrow> (Key_ref \<times> Store) option" where
  "add_key a s =
     (case objects s a of
        Some (Keyset_Object ks) \<Rightarrow>
          Some (Key_of_keyset a (length (key ks)),
                s\<lparr>objects := (objects s)(a \<mapsto> Keyset_Object (ks\<lparr>key := key ks @ [new_Key]\<rparr>))\<rparr>)
      | _ \<Rightarrow> None)"

definition ExtractPublicKey_store ::
  "Registry \<Rightarrow> Key_ref \<Rightarrow> Store \<Rightarrow> (nat StatusOr \<times> Store) option" where
  "ExtractPublicKey_store GetPublicKeyData key_ref s =
     (case read_Key s key_ref of
        None \<Rightarrow> None
      | Some k \<Rightarrow>
          if key_material_type (key_data k) \<noteq> ASYMMETRIC_PRIVATE then
            Some (Inl (Status INVALID_ARGUMENT
                         ''Key material is not of type KeyData::ASYMMETRIC_PRIVATE''), s)
          else
            (case GetPublicKeyData (type_url (key_data k)) (key_value (key_data k)) of
               Inl st \<Rightarrow> Some (Inl st, s)
             | Inr kd \<Rightarrow>
                 (let \<comment> \<open>the object that \<^verbatim>\<open>key_data_result\<close> owns\<close>
                      (key_data_result, s1) = allocate (KeyData_Object kd) s;
                      \<comment> \<open>\<^verbatim>\<open>make_unique<Keyset::Key>(key)\<close>: a new object, a copy of the key\<close>
                      (public_key, s2) = allocate (Key_Object k) s1
                  in \<comment> \<open>\<^verbatim>\<open>public_key->mutable_key_data()->Swap(...)\<close>\<close>
                     case Swap_KeyData (KeyData_of_key (Key_at public_key))
                            (KeyData_at key_data_result) s2 of
                       None \<Rightarrow> None
                     | Some s3 \<Rightarrow>
                         \<comment> \<open>\<^verbatim>\<open>key_data_result\<close> goes out of scope\<close>
                         Some (Inr public_key, release key_data_result s3))))"

fun GetPublicKeysetHandle_store_loop ::
  "Registry \<Rightarrow> nat \<Rightarrow> nat list \<Rightarrow> nat \<Rightarrow> Store \<Rightarrow> (Status option \<times> Store) option" where
  "GetPublicKeysetHandle_store_loop GetPublicKeyData this [] public_keyset s = Some (None, s)"
| "GetPublicKeysetHandle_store_loop GetPublicKeyData this (i # rest) public_keyset s =
     (case ExtractPublicKey_store GetPublicKeyData (Key_of_handle this i) s of
        None \<Rightarrow> None
      | Some (Inl st, s1) \<Rightarrow> Some (Some st, s1)
      | Some (Inr public_key, s1) \<Rightarrow>
          \<comment> \<open>\<^verbatim>\<open>public_keyset->add_key()->Swap(public_key_result.ValueOrDie().get())\<close>\<close>
          (case add_key public_keyset s1 of
             None \<Rightarrow> None
           | Some (added_key, s2) \<Rightarrow>
               (case Swap_Key added_key (Key_at public_key) s2 of
                  None \<Rightarrow> None
                | Some s3 \<Rightarrow>
                    \<comment> \<open>\<^verbatim>\<open>public_key_result\<close> goes out of scope\<close>
                    GetPublicKeysetHandle_store_loop GetPublicKeyData this rest public_keyset
                      (release public_key s3))))"

definition GetPublicKeysetHandle_store ::
  "Registry \<Rightarrow> nat \<Rightarrow> Store \<Rightarrow> (nat StatusOr \<times> Store) option" where
  "GetPublicKeysetHandle_store GetPublicKeyData this s =
     (case objects s this of
        Some (Handle_Object h) \<Rightarrow>
          (let \<comment> \<open>\<^verbatim>\<open>new Keyset()\<close>\<close>
               (public_keyset, s1) = allocate (Keyset_Object new_Keyset) s
           in case GetPublicKeysetHandle_store_loop GetPublicKeyData this
                     [0..<length (key (get_keyset h))] public_keyset s1 of
                None \<Rightarrow> None
              | Some (Some st, s2) \<Rightarrow>
                  \<comment> \<open>the early return: \<^verbatim>\<open>public_keyset\<close> goes out of scope\<close>
                  Some (Inl st, release public_keyset s2)
              | Some (None, s2) \<Rightarrow>
                  (case (objects s2 this, objects s2 public_keyset) of
                     (Some (Handle_Object h2), Some (Keyset_Object pk)) \<Rightarrow>
                       (let \<comment> \<open>\<^verbatim>\<open>set_primary_key_id(get_keyset().primary_key_id())\<close>\<close>
                            s3 = s2\<lparr>objects := (objects s2)(public_keyset \<mapsto>
                                   Keyset_Object
                                     (pk\<lparr>primary_key_id := primary_key_id (get_keyset h2)\<rparr>))\<rparr>;
                            \<comment> \<open>\<^verbatim>\<open>new KeysetHandle(std::move(public_keyset))\<close>: the keyset
                              moves into a new handle object, and the Keyset object is released\<close>
                            (handle, s4) =
                              allocate (Handle_Object
                                \<lparr>keyset_member =
                                   pk\<lparr>primary_key_id := primary_key_id (get_keyset h2)\<rparr>\<rparr>) s3
                        in Some (Inr handle, release public_keyset s4))
                   | _ \<Rightarrow> None))
      | _ \<Rightarrow> None)"

section \<open>Example collaborators and keysets\<close>

text \<open>
  Concrete keys, keysets and collaborators, on which the properties below are
  evaluated. The example registry knows one private key type and derives the public
  key data by reversing the bytes; every other type is not found. The symmetric
  registry answers every lookup with key data classified as symmetric. The example
  codec encodes one keyset; the example AEAD reverses the bytes and ignores the
  associated data.
\<close>

definition example_private_key :: Key where
  "example_private_key =
     \<lparr>key_data = \<lparr>type_url = ''type.private'', key_value = ''secret'',
                   key_material_type = ASYMMETRIC_PRIVATE\<rparr>,
      status = 1, key_id = 7, output_prefix_type = 1\<rparr>"

definition example_unregistered_key :: Key where
  "example_unregistered_key =
     \<lparr>key_data = \<lparr>type_url = ''type.unregistered'', key_value = ''secret'',
                   key_material_type = ASYMMETRIC_PRIVATE\<rparr>,
      status = 1, key_id = 5, output_prefix_type = 1\<rparr>"

definition example_symmetric_key :: Key where
  "example_symmetric_key =
     \<lparr>key_data = \<lparr>type_url = ''type.symmetric'', key_value = ''shared'',
                   key_material_type = SYMMETRIC\<rparr>,
      status = 1, key_id = 8, output_prefix_type = 1\<rparr>"

definition example_registry :: Registry where
  "example_registry url val =
     (if url = ''type.private''
      then Inr \<lparr>type_url = ''type.public'', key_value = rev val,
                key_material_type = ASYMMETRIC_PUBLIC\<rparr>
      else Inl (Status NOT_FOUND ''No manager for the type''))"

definition symmetric_registry :: Registry where
  "symmetric_registry url val =
     Inr \<lparr>type_url = url, key_value = val, key_material_type = SYMMETRIC\<rparr>"

definition example_keyset :: Keyset where
  "example_keyset = \<lparr>primary_key_id = 7, key = [example_private_key]\<rparr>"

definition example_handle :: KeysetHandle where
  "example_handle = \<lparr>keyset_member = example_keyset\<rparr>"

definition mixed_handle :: KeysetHandle where
  "mixed_handle =
     \<lparr>keyset_member =
        \<lparr>primary_key_id = 7, key = [example_private_key, example_symmetric_key]\<rparr>\<rparr>"

definition unregistered_handle :: KeysetHandle where
  "unregistered_handle =
     \<lparr>keyset_member =
        \<lparr>primary_key_id = 5, key = [example_unregistered_key, example_symmetric_key]\<rparr>\<rparr>"

definition example_serialize :: "Keyset \<Rightarrow> string" where
  "example_serialize keyset = (if keyset = example_keyset then ''keyset'' else [])"

definition example_parse :: "string \<Rightarrow> Keyset option" where
  "example_parse bytes = (if bytes = ''keyset'' then Some example_keyset else None)"

definition example_codec :: KeysetCodec where
  "example_codec =
     \<lparr>SerializeAsString = example_serialize, ParseFromString = example_parse\<rparr>"

definition reversing_encrypt :: "string \<Rightarrow> string \<Rightarrow> string StatusOr" where
  "reversing_encrypt plaintext associated_data = Inr (rev plaintext)"

definition reversing_decrypt :: "string \<Rightarrow> string \<Rightarrow> string StatusOr" where
  "reversing_decrypt ciphertext associated_data = Inr (rev ciphertext)"

definition example_aead :: Aead where
  "example_aead = \<lparr>Aead_Encrypt = reversing_encrypt, Aead_Decrypt = reversing_decrypt\<rparr>"

definition failing_encrypt :: "string \<Rightarrow> string \<Rightarrow> string StatusOr" where
  "failing_encrypt plaintext associated_data = Inl (Status INTERNAL ''no key'')"

definition failing_decrypt :: "string \<Rightarrow> string \<Rightarrow> string StatusOr" where
  "failing_decrypt ciphertext associated_data = Inl (Status INTERNAL ''decryption failed'')"

definition failing_aead :: Aead where
  "failing_aead = \<lparr>Aead_Encrypt = failing_encrypt, Aead_Decrypt = failing_decrypt\<rparr>"

definition parse_message_decrypt :: "string \<Rightarrow> string \<Rightarrow> string StatusOr" where
  "parse_message_decrypt ciphertext associated_data =
     Inl (Status INTERNAL ''Could not parse the decrypted data as a Keyset-proto.'')"

definition parse_message_aead :: Aead where
  "parse_message_aead =
     \<lparr>Aead_Encrypt = failing_encrypt, Aead_Decrypt = parse_message_decrypt\<rparr>"

definition accepting_write :: "EncryptedKeyset \<Rightarrow> Status" where
  "accepting_write enc_keyset = Status OK []"

definition example_writer :: KeysetWriter where
  "example_writer = \<lparr>Writer_Write = accepting_write\<rparr>"

definition example_reader :: KeysetReader where
  "example_reader = \<lparr>ReadEncrypted = Inr \<lparr>encrypted_keyset = ''tesyek''\<rparr>\<rparr>"

definition garbage_reader :: KeysetReader where
  "garbage_reader = \<lparr>ReadEncrypted = Inr \<lparr>encrypted_keyset = ''garbage''\<rparr>\<rparr>"

definition empty_reader :: KeysetReader where
  "empty_reader = \<lparr>ReadEncrypted = Inr \<lparr>encrypted_keyset = []\<rparr>\<rparr>"

definition example_store :: Store where
  "example_store =
     \<lparr>objects = (\<lambda>a. None)(0 \<mapsto> Handle_Object example_handle, 1 \<mapsto> Handle_Object mixed_handle),
      next_address = 2\<rparr>"

text \<open>The calls that are calls of the writer's \<^verbatim>\<open>Write\<close>.\<close>

fun is_Call_Write :: "Call \<Rightarrow> bool" where
  "is_Call_Write (Call_Write enc_keyset) = True"
| "is_Call_Write other = False"

lemmas example_defs =
  example_private_key_def example_unregistered_key_def example_symmetric_key_def
  example_registry_def symmetric_registry_def example_keyset_def example_handle_def
  mixed_handle_def unregistered_handle_def example_serialize_def example_parse_def
  example_codec_def reversing_encrypt_def reversing_decrypt_def example_aead_def
  failing_encrypt_def failing_decrypt_def failing_aead_def parse_message_decrypt_def
  parse_message_aead_def accepting_write_def example_writer_def example_reader_def
  garbage_reader_def empty_reader_def

lemmas operation_defs =
  call_ReadEncrypted_def call_Decrypt_def call_Encrypt_def call_Write_def
  Read_def Write_def Encrypt_def Decrypt_def ToStatusF_def c_str_def get_keyset_def
  GetPublicKeysetHandle_def ExtractPublicKey_def Swap_def new_Keyset_def new_Key_def
  new_KeyData_def

lemmas store_operation_defs =
  GetPublicKeysetHandle_store_def ExtractPublicKey_store_def allocate_def release_def
  add_key_def Swap_Key_def Swap_KeyData_def

section \<open>Auxiliary facts\<close>

subsection \<open>Extraction of one public key\<close>

lemma ExtractPublicKey_Inr:
  "ExtractPublicKey reg k = Inr pk \<longleftrightarrow>
     key_material_type (key_data k) = ASYMMETRIC_PRIVATE \<and>
     (\<exists>kd. reg (type_url (key_data k)) (key_value (key_data k)) = Inr kd \<and>
           pk = k\<lparr>key_data := kd\<rparr>)"
  by (auto simp: ExtractPublicKey_def Swap_def split: sum.splits)

lemma ExtractPublicKey_not_private:
  "key_material_type (key_data k) \<noteq> ASYMMETRIC_PRIVATE \<Longrightarrow>
     ExtractPublicKey reg k =
       Inl (Status INVALID_ARGUMENT ''Key material is not of type KeyData::ASYMMETRIC_PRIVATE'')"
  by (simp add: ExtractPublicKey_def)

subsection \<open>The loop over the keys\<close>

text \<open>
  A loop that ends with a keyset has appended, to the keyset it started from, the
  extracted key of every key, in order, and has left the primary key id alone.
\<close>

lemma loop_Inr:
  "GetPublicKeysetHandle_loop reg ks acc = Inr res \<Longrightarrow>
     primary_key_id res = primary_key_id acc \<and>
     (\<exists>pks. key res = key acc @ pks \<and> map Inr pks = map (ExtractPublicKey reg) ks)"
proof (induction ks arbitrary: acc)
  case Nil
  then show ?case by simp
next
  case (Cons k ks)
  from Cons.prems obtain pk where pk: "ExtractPublicKey reg k = Inr pk"
    by (cases "ExtractPublicKey reg k") auto
  with Cons.prems
  have "GetPublicKeysetHandle_loop reg ks (acc\<lparr>key := key acc @ [pk]\<rparr>) = Inr res"
    by (simp add: Swap_def)
  from Cons.IH [OF this] obtain pks where
    "primary_key_id res = primary_key_id acc" "key res = key acc @ pk # pks"
    "map Inr pks = map (ExtractPublicKey reg) ks"
    by auto
  with pk show ?case by auto
qed

lemma loop_total:
  "\<forall>k\<in>set ks. \<exists>pk. ExtractPublicKey reg k = Inr pk \<Longrightarrow>
     \<exists>res. GetPublicKeysetHandle_loop reg ks acc = Inr res"
  by (induction ks arbitrary: acc) (auto simp: Swap_def)

lemma loop_first_error:
  "\<forall>k\<in>set ks1. \<exists>pk. ExtractPublicKey reg k = Inr pk \<Longrightarrow>
   ExtractPublicKey reg k = Inl st \<Longrightarrow>
     GetPublicKeysetHandle_loop reg (ks1 @ k # ks2) acc = Inl st"
  by (induction ks1 arbitrary: acc) (auto simp: Swap_def)

lemma loop_error_if:
  "\<exists>k\<in>set ks. \<exists>st. ExtractPublicKey reg k = Inl st \<Longrightarrow>
     \<exists>st. GetPublicKeysetHandle_loop reg ks acc = Inl st"
  by (induction ks arbitrary: acc) (auto simp: Swap_def split: sum.splits)

lemma loop_non_private:
  assumes "\<exists>k\<in>set ks. key_material_type (key_data k) \<noteq> ASYMMETRIC_PRIVATE"
  shows "\<exists>st. GetPublicKeysetHandle_loop reg ks acc = Inl st"
proof (rule loop_error_if)
  from assms show "\<exists>k\<in>set ks. \<exists>st. ExtractPublicKey reg k = Inl st"
    by (auto simp: ExtractPublicKey_def)
qed

lemma split_at_first_non_private:
  assumes "\<exists>k\<in>set ks. key_material_type (key_data k) \<noteq> ASYMMETRIC_PRIVATE"
  shows "\<exists>k ks2.
           ks = takeWhile (\<lambda>k. key_material_type (key_data k) = ASYMMETRIC_PRIVATE) ks @ k # ks2 \<and>
           key_material_type (key_data k) \<noteq> ASYMMETRIC_PRIVATE"
proof -
  let ?P = "\<lambda>k. key_material_type (key_data k) = ASYMMETRIC_PRIVATE"
  from assms have "dropWhile ?P ks \<noteq> []" by (auto simp: dropWhile_eq_Nil_conv)
  then obtain k ks2 where d: "dropWhile ?P ks = k # ks2"
    by (cases "dropWhile ?P ks") auto
  then have "\<not> ?P k" using hd_dropWhile [of ?P ks] by auto
  moreover have "ks = takeWhile ?P ks @ k # ks2"
    using d takeWhile_dropWhile_id [of ?P ks] by simp
  ultimately show ?thesis by blast
qed

lemma GetPublicKeysetHandle_Inr:
  assumes "GetPublicKeysetHandle reg h = Inr h'"
  shows "primary_key_id (get_keyset h') = primary_key_id (get_keyset h)"
    and "map Inr (key (get_keyset h')) = map (ExtractPublicKey reg) (key (get_keyset h))"
proof -
  from assms obtain res where
    res: "GetPublicKeysetHandle_loop reg (key (get_keyset h)) new_Keyset = Inr res"
    and h': "h' = \<lparr>keyset_member = res\<lparr>primary_key_id := primary_key_id (get_keyset h)\<rparr>\<rparr>"
    by (auto simp: GetPublicKeysetHandle_def split: sum.splits)
  from loop_Inr [OF res] h'
  show "primary_key_id (get_keyset h') = primary_key_id (get_keyset h)"
    and "map Inr (key (get_keyset h')) = map (ExtractPublicKey reg) (key (get_keyset h))"
    by (auto simp: get_keyset_def new_Keyset_def)
qed

lemma GetPublicKeysetHandle_keys_related:
  assumes "GetPublicKeysetHandle reg h = Inr h'"
  shows "list_all2 (\<lambda>k k'. ExtractPublicKey reg k = Inr k')
           (key (get_keyset h)) (key (get_keyset h'))"
  using GetPublicKeysetHandle_Inr(2) [OF assms]
  by (simp add: list_all2_conv_all_nth list_eq_iff_nth_eq)

subsection \<open>The calls of Read and Write\<close>

lemma Write_calls:
  "snd (Write pb h (Some w) a) =
     (case Aead_Encrypt a (SerializeAsString pb (get_keyset h)) [] of
        Inl st \<Rightarrow> [Call_Encrypt (SerializeAsString pb (get_keyset h)) []]
      | Inr c \<Rightarrow> [Call_Encrypt (SerializeAsString pb (get_keyset h)) [],
                  Call_Write \<lparr>encrypted_keyset = c\<rparr>])"
  by (simp add: Write_def Encrypt_def call_Encrypt_def call_Write_def split: sum.split)

lemma Read_calls:
  "snd (Read pb r a) =
     (case ReadEncrypted r of
        Inl st \<Rightarrow> [Call_ReadEncrypted]
      | Inr enc \<Rightarrow> [Call_ReadEncrypted, Call_Decrypt (encrypted_keyset enc) []])"
  by (simp add: Read_def Decrypt_def call_ReadEncrypted_def call_Decrypt_def
      split: sum.split option.split)

subsection \<open>The store of objects\<close>

text \<open>
  On a reference that points to a key, the extraction on the store returns what
  \<open>ExtractPublicKey\<close> returns on that key: the same status and an unchanged store, or the
  address of a new Key object that holds the extracted key, after the released object of
  the registry's result.
\<close>

lemma ExtractPublicKey_store_eq:
  assumes "read_Key s r = Some k"
  shows "case ExtractPublicKey reg k of
           Inl st \<Rightarrow> ExtractPublicKey_store reg r s = Some (Inl st, s)
         | Inr pk \<Rightarrow>
             (\<exists>s'. ExtractPublicKey_store reg r s = Some (Inr (Suc (next_address s)), s') \<and>
                next_address s' = Suc (Suc (next_address s)) \<and>
                (\<forall>a. objects s' a =
                   (if a = next_address s then None
                    else if a = Suc (next_address s) then Some (Key_Object pk)
                    else objects s a)))"
  using assms
  by (auto simp: ExtractPublicKey_store_def ExtractPublicKey_def allocate_def release_def
      Swap_KeyData_def Swap_def split: sum.splits)

text \<open>
  The loop on the store follows \<open>GetPublicKeysetHandle_loop\<close>; it writes the public
  keyset and new objects only.
\<close>

lemma loop_store_eq:
  assumes "objects s this = Some (Handle_Object h)"
    and "objects s q = Some (Keyset_Object pk)"
    and "this < next_address s" and "q < next_address s"
    and "\<forall>i\<in>set is. i < length (key (get_keyset h))"
  shows "\<exists>s'. (case GetPublicKeysetHandle_loop reg (map (\<lambda>i. key (get_keyset h) ! i) is) pk of
                 Inl st \<Rightarrow> GetPublicKeysetHandle_store_loop reg this is q s = Some (Some st, s')
               | Inr pk' \<Rightarrow>
                   GetPublicKeysetHandle_store_loop reg this is q s = Some (None, s') \<and>
                   objects s' q = Some (Keyset_Object pk')) \<and>
              next_address s \<le> next_address s' \<and>
              (\<forall>a < next_address s. a \<noteq> q \<longrightarrow> objects s' a = objects s a)"
  using assms
proof (induction "is" arbitrary: s pk)
  case Nil
  then show ?case by simp
next
  case (Cons i rest)
  let ?k = "key (get_keyset h) ! i"
  from Cons.prems have rd: "read_Key s (Key_of_handle this i) = Some ?k" by simp
  from Cons.prems have neq: "this \<noteq> q" by auto
  show ?case
  proof (cases "ExtractPublicKey reg ?k")
    case (Inl st)
    with ExtractPublicKey_store_eq [OF rd, of reg] show ?thesis by simp
  next
    case (Inr public_key)
    with ExtractPublicKey_store_eq [OF rd, of reg] obtain s1 where
      ex: "ExtractPublicKey_store reg (Key_of_handle this i) s = Some (Inr (Suc (next_address s)), s1)"
      and nx: "next_address s1 = Suc (Suc (next_address s))"
      and ob: "\<forall>a. objects s1 a =
                   (if a = next_address s then None
                    else if a = Suc (next_address s) then Some (Key_Object public_key)
                    else objects s a)"
      by auto
    let ?p = "Suc (next_address s)"
    let ?pk = "pk\<lparr>key := key pk @ [public_key]\<rparr>"
    define s3 where "s3 = release ?p (s1\<lparr>objects := (objects s1)
        (q \<mapsto> Keyset_Object ?pk, ?p \<mapsto> Key_Object new_Key)\<rparr>)"
    have q1: "objects s1 q = Some (Keyset_Object pk)" using ob Cons.prems by auto
    have p1: "objects s1 ?p = Some (Key_Object public_key)" using ob by auto
    have qp: "q \<noteq> ?p" using Cons.prems by auto
    have step: "GetPublicKeysetHandle_store_loop reg this (i # rest) q s =
        GetPublicKeysetHandle_store_loop reg this rest q s3"
      using ex q1 p1 qp
      by (simp add: add_key_def Swap_Key_def Swap_def s3_def)
    have s3: "objects s3 this = Some (Handle_Object h)" "objects s3 q = Some (Keyset_Object ?pk)"
      "this < next_address s3" "q < next_address s3"
      "next_address s3 = Suc (Suc (next_address s))"
      "\<forall>a < next_address s. a \<noteq> q \<longrightarrow> objects s3 a = objects s a"
      using Cons.prems ob nx neq qp by (auto simp: s3_def release_def)
    from Cons.IH [OF s3(1-4)] Cons.prems(5) obtain s' where
      IH: "(case GetPublicKeysetHandle_loop reg (map (\<lambda>i. key (get_keyset h) ! i) rest) ?pk of
                 Inl st \<Rightarrow> GetPublicKeysetHandle_store_loop reg this rest q s3 = Some (Some st, s')
               | Inr pk' \<Rightarrow>
                   GetPublicKeysetHandle_store_loop reg this rest q s3 = Some (None, s') \<and>
                   objects s' q = Some (Keyset_Object pk'))"
        "next_address s3 \<le> next_address s'"
        "\<forall>a < next_address s3. a \<noteq> q \<longrightarrow> objects s' a = objects s3 a"
      by auto
    have "(case GetPublicKeysetHandle_loop reg (map (\<lambda>i. key (get_keyset h) ! i) (i # rest)) pk of
                 Inl st \<Rightarrow> GetPublicKeysetHandle_store_loop reg this (i # rest) q s = Some (Some st, s')
               | Inr pk' \<Rightarrow>
                   GetPublicKeysetHandle_store_loop reg this (i # rest) q s = Some (None, s') \<and>
                   objects s' q = Some (Keyset_Object pk'))"
      unfolding step using IH(1) Inr by (simp add: Swap_def)
    moreover have "next_address s \<le> next_address s'" using IH(2) s3(5) by simp
    moreover have "\<forall>a < next_address s. a \<noteq> q \<longrightarrow> objects s' a = objects s a"
      using IH(3) s3(5,6) by auto
    ultimately show ?thesis by blast
  qed
qed


text \<open>
  \<open>GetPublicKeysetHandle_store\<close> returns what \<open>GetPublicKeysetHandle\<close> returns: the same
  status, or the address of a new handle object that holds the same handle; and it leaves
  every object below the next address of the store it started from as it was.
\<close>

lemma GetPublicKeysetHandle_store_eq:
  assumes "objects s this = Some (Handle_Object h)" and "this < next_address s"
  shows "\<exists>result s'. GetPublicKeysetHandle_store reg this s = Some (result, s') \<and>
           (case GetPublicKeysetHandle reg h of
              Inl st \<Rightarrow> result = Inl st
            | Inr h' \<Rightarrow>
                (\<exists>a. result = Inr a \<and> next_address s \<le> a \<and>
                   objects s' a = Some (Handle_Object h'))) \<and>
           (\<forall>a < next_address s. objects s' a = objects s a)"
proof -
  let ?q = "next_address s"
  let ?ks = "key (get_keyset h)"
  define s1 where "s1 = snd (allocate (Keyset_Object new_Keyset) s)"
  have s1: "objects s1 this = Some (Handle_Object h)"
    "objects s1 ?q = Some (Keyset_Object new_Keyset)"
    "this < next_address s1" "?q < next_address s1"
    "next_address s1 = Suc ?q"
    "\<forall>a < ?q. objects s1 a = objects s a"
    using assms by (auto simp: s1_def allocate_def)
  have "\<forall>i\<in>set [0..<length ?ks]. i < length ?ks" by simp
  from loop_store_eq [OF s1(1-4) this, of reg] obtain s2 where
    loop: "case GetPublicKeysetHandle_loop reg ?ks new_Keyset of
             Inl st \<Rightarrow>
               GetPublicKeysetHandle_store_loop reg this [0..<length ?ks] ?q s1 = Some (Some st, s2)
           | Inr pk' \<Rightarrow>
               GetPublicKeysetHandle_store_loop reg this [0..<length ?ks] ?q s1 = Some (None, s2) \<and>
               objects s2 ?q = Some (Keyset_Object pk')"
    and nx: "next_address s1 \<le> next_address s2"
    and fr: "\<forall>a < next_address s1. a \<noteq> ?q \<longrightarrow> objects s2 a = objects s1 a"
    by (auto simp: map_nth)
  have this2: "objects s2 this = Some (Handle_Object h)"
    using fr s1 assms by auto
  have frame2: "\<forall>a < ?q. objects s2 a = objects s a"
    using fr s1 by auto
  have alloc: "allocate (Keyset_Object new_Keyset) s = (?q, s1)"
    by (simp add: s1_def allocate_def)
  show ?thesis
  proof (cases "GetPublicKeysetHandle_loop reg ?ks new_Keyset")
    case (Inl st)
    with loop assms(1) alloc frame2 show ?thesis
      by (auto simp: GetPublicKeysetHandle_store_def GetPublicKeysetHandle_def release_def)
  next
    case (Inr pk')
    with loop assms(1) alloc frame2 this2 nx s1(5) show ?thesis
      by (auto simp: GetPublicKeysetHandle_store_def GetPublicKeysetHandle_def release_def
          allocate_def)
  qed
qed

section \<open>Properties\<close>

subsection \<open>Envelope encryption\<close>




text \<open>
  C5: every call of the AEAD has the empty associated data. A call of
  \<^verbatim>\<open>Encrypt\<close> made by \<^verbatim>\<open>Write\<close> has the serialized keyset as plaintext and the empty
  associated data; a call of \<^verbatim>\<open>Decrypt\<close> made by \<^verbatim>\<open>Read\<close> has the ciphertext the
  reader delivered and the empty associated data; \<^verbatim>\<open>Write\<close> never decrypts and
  \<^verbatim>\<open>Read\<close> never encrypts; and these calls are made: by \<^verbatim>\<open>Write\<close> whenever the
  writer is not null, by \<^verbatim>\<open>Read\<close> whenever the reader delivers a record.
\<close>

theorem aead_calls_empty_associated_data:
  "(\<forall>p ad. Call_Encrypt p ad \<in> set (snd (Write pb h w a)) \<longrightarrow>
      ad = [] \<and> p = SerializeAsString pb (get_keyset h)) \<and>
   (\<forall>c ad. Call_Decrypt c ad \<in> set (snd (Read pb r a)) \<longrightarrow>
      ad = [] \<and> (\<exists>enc. ReadEncrypted r = Inr enc \<and> c = encrypted_keyset enc)) \<and>
   (\<forall>c ad. Call_Decrypt c ad \<notin> set (snd (Write pb h w a))) \<and>
   (\<forall>p ad. Call_Encrypt p ad \<notin> set (snd (Read pb r a))) \<and>
   (\<forall>w'. w = Some w' \<longrightarrow>
      Call_Encrypt (SerializeAsString pb (get_keyset h)) [] \<in> set (snd (Write pb h w a))) \<and>
   (\<forall>enc. ReadEncrypted r = Inr enc \<longrightarrow>
      Call_Decrypt (encrypted_keyset enc) [] \<in> set (snd (Read pb r a)))"
proof (cases w)
  case None
  then show ?thesis
    by (auto simp: Write_def Read_calls split: sum.splits)
next
  case (Some w')
  then show ?thesis
    by (auto simp: Write_calls Read_calls split: sum.splits)
qed

theorem aead_calls_empty_associated_data_witness:
  "Call_Encrypt ''keyset'' [] \<in>
     set (snd (Write example_codec example_handle (Some example_writer) example_aead)) \<and>
   Call_Decrypt ''tesyek'' [] \<in> set (snd (Read example_codec example_reader example_aead))"
  using aead_calls_empty_associated_data
    [of example_codec example_handle "Some example_writer" example_aead example_reader]
  by (simp add: example_defs get_keyset_def)

text \<open>
  C6: \<^verbatim>\<open>Write\<close> with a null writer fails with the invalid-input error and calls neither
  the AEAD nor the writer: its list of calls is empty.
\<close>

theorem Write_null_writer:
  "Write pb this None master_key_aead =
     (Status INVALID_ARGUMENT ''Writer must be non-null'', [])"
  by (simp add: Write_def)

text \<open>
  C7: with a writer that is not null, \<^verbatim>\<open>Write\<close> calls the writer exactly once when the
  encryption succeeds, after the encryption and with the ciphertext wrapped in a record,
  and returns the writer's own status; when the encryption fails it does not call the
  writer, and returns the invalid-input error that carries the AEAD's message.
\<close>

theorem Write_invokes_writer_once:
  "(\<forall>c. Aead_Encrypt a (SerializeAsString pb (get_keyset h)) [] = Inr c \<longrightarrow>
      snd (Write pb h (Some w) a) =
        [Call_Encrypt (SerializeAsString pb (get_keyset h)) [],
         Call_Write \<lparr>encrypted_keyset = c\<rparr>] \<and>
      length (filter is_Call_Write (snd (Write pb h (Some w) a))) = 1 \<and>
      fst (Write pb h (Some w) a) = Writer_Write w \<lparr>encrypted_keyset = c\<rparr>) \<and>
   (\<forall>st. Aead_Encrypt a (SerializeAsString pb (get_keyset h)) [] = Inl st \<longrightarrow>
      length (filter is_Call_Write (snd (Write pb h (Some w) a))) = 0 \<and>
      fst (Write pb h (Some w) a) =
        Status INVALID_ARGUMENT
          (''Encryption of the keyset failed: '' @ c_str (error_message st)))"
  by (simp add: Write_def Encrypt_def call_Encrypt_def call_Write_def ToStatusF_def)

theorem Write_invokes_writer_once_witness:
  "Aead_Encrypt example_aead (SerializeAsString example_codec (get_keyset example_handle)) [] =
     Inr ''tesyek'' \<and>
   length (filter is_Call_Write
     (snd (Write example_codec example_handle (Some example_writer) example_aead))) = 1 \<and>
   fst (Write example_codec example_handle (Some example_writer) example_aead) = Status OK [] \<and>
   Aead_Encrypt failing_aead (SerializeAsString example_codec (get_keyset example_handle)) [] =
     Inl (Status INTERNAL ''no key'') \<and>
   length (filter is_Call_Write
     (snd (Write example_codec example_handle (Some example_writer) failing_aead))) = 0"
  using Write_invokes_writer_once [of example_aead example_codec example_handle example_writer]
    Write_invokes_writer_once [of failing_aead example_codec example_handle example_writer]
  by (simp add: example_defs get_keyset_def)

text \<open>
  C8, as the code has it: when the decryption succeeds and the bytes do not parse,
  \<^verbatim>\<open>Read\<close> fails with the invalid-input error whose message is the decryption prefix
  followed by the parse message. A failed decryption gives the same code and the same
  prefix, followed by the AEAD's message as \<^verbatim>\<open>%s\<close> prints it. The two errors differ
  exactly when that message is not the parse message.
\<close>

theorem Read_parse_failure_error:
  assumes "ReadEncrypted r = Inr enc"
    and "Aead_Decrypt a (encrypted_keyset enc) [] = Inr plaintext"
    and "ParseFromString pb plaintext = None"
    and "ReadEncrypted r' = Inr enc'"
    and "Aead_Decrypt a' (encrypted_keyset enc') [] = Inl st"
  shows "fst (Read pb r a) =
           Inl (Status INVALID_ARGUMENT
                  ''Error decrypting encrypted keyset: Could not parse the decrypted data as a Keyset-proto.'') \<and>
         fst (Read pb r' a') =
           Inl (Status INVALID_ARGUMENT
                  (''Error decrypting encrypted keyset: '' @ c_str (error_message st))) \<and>
         (fst (Read pb r a) \<noteq> fst (Read pb r' a') \<longleftrightarrow>
            c_str (error_message st) \<noteq>
              ''Could not parse the decrypted data as a Keyset-proto.'')"
proof -
  have parse: "fst (Read pb r a) =
      Inl (Status INVALID_ARGUMENT
             ''Error decrypting encrypted keyset: Could not parse the decrypted data as a Keyset-proto.'')"
    using assms(1-3)
    by (simp add: Read_def Decrypt_def call_ReadEncrypted_def call_Decrypt_def ToStatusF_def
        c_str_def)
  have decrypt: "fst (Read pb r' a') =
      Inl (Status INVALID_ARGUMENT
             (''Error decrypting encrypted keyset: '' @ c_str (error_message st)))"
    using assms(4,5)
    by (simp add: Read_def Decrypt_def call_ReadEncrypted_def call_Decrypt_def ToStatusF_def)
  have "''Error decrypting encrypted keyset: Could not parse the decrypted data as a Keyset-proto.'' =
      ''Error decrypting encrypted keyset: '' @
      ''Could not parse the decrypted data as a Keyset-proto.''"
    by simp
  with parse decrypt show ?thesis by (auto simp del: append.simps)
qed

theorem Read_parse_failure_error_witness:
  "ReadEncrypted garbage_reader = Inr \<lparr>encrypted_keyset = ''garbage''\<rparr> \<and>
   Aead_Decrypt example_aead ''garbage'' [] = Inr ''egabrag'' \<and>
   ParseFromString example_codec ''egabrag'' = None \<and>
   Aead_Decrypt failing_aead ''garbage'' [] = Inl (Status INTERNAL ''decryption failed'') \<and>
   fst (Read example_codec garbage_reader example_aead) =
     Inl (Status INVALID_ARGUMENT
            ''Error decrypting encrypted keyset: Could not parse the decrypted data as a Keyset-proto.'') \<and>
   fst (Read example_codec garbage_reader failing_aead) =
     Inl (Status INVALID_ARGUMENT ''Error decrypting encrypted keyset: decryption failed'') \<and>
   fst (Read example_codec garbage_reader example_aead) \<noteq>
     fst (Read example_codec garbage_reader failing_aead)"
  using Read_parse_failure_error
    [of garbage_reader "\<lparr>encrypted_keyset = ''garbage''\<rparr>" example_aead "''egabrag''"
      example_codec garbage_reader "\<lparr>encrypted_keyset = ''garbage''\<rparr>" failing_aead
      "Status INTERNAL ''decryption failed''"]
  by (simp add: example_defs c_str_def)

text \<open>
  C8 as it is stated fails: under the example AEAD the decryption succeeds and the bytes
  do not parse; under an AEAD whose decryption fails with the parse message as its own
  message, \<^verbatim>\<open>Read\<close> returns the very same error.
\<close>

theorem Read_parse_failure_same_as_decrypt_failure:
  "ReadEncrypted garbage_reader = Inr \<lparr>encrypted_keyset = ''garbage''\<rparr> \<and>
   Aead_Decrypt example_aead ''garbage'' [] = Inr ''egabrag'' \<and>
   ParseFromString example_codec ''egabrag'' = None \<and>
   Aead_Decrypt parse_message_aead ''garbage'' [] =
     Inl (Status INTERNAL ''Could not parse the decrypted data as a Keyset-proto.'') \<and>
   fst (Read example_codec garbage_reader example_aead) =
     fst (Read example_codec garbage_reader parse_message_aead)"
  by (simp add: operation_defs example_defs)

subsection \<open>Public keyset\<close>

text \<open>
  C2: when every key of the keyset is asymmetric-private and the registry answers every
  lookup with key data, \<^verbatim>\<open>GetPublicKeysetHandle\<close> returns a handle whose keyset has as
  many keys, in the same order, with the same key ids, statuses and output prefix types;
  the key data of each key is the key data the registry returned for the type url and the
  value of the original key; and the primary key id is the original one.
\<close>

theorem GetPublicKeysetHandle_entries:
  assumes "\<forall>k \<in> set (key (get_keyset h)).
             key_material_type (key_data k) = ASYMMETRIC_PRIVATE \<and>
             (\<exists>kd. registry (type_url (key_data k)) (key_value (key_data k)) = Inr kd)"
  shows "\<exists>h'. GetPublicKeysetHandle registry h = Inr h' \<and>
           length (key (get_keyset h')) = length (key (get_keyset h)) \<and>
           map key_id (key (get_keyset h')) = map key_id (key (get_keyset h)) \<and>
           map status (key (get_keyset h')) = map status (key (get_keyset h)) \<and>
           map output_prefix_type (key (get_keyset h')) =
             map output_prefix_type (key (get_keyset h)) \<and>
           map (\<lambda>k'. Inr (key_data k')) (key (get_keyset h')) =
             map (\<lambda>k. registry (type_url (key_data k)) (key_value (key_data k)))
               (key (get_keyset h)) \<and>
           primary_key_id (get_keyset h') = primary_key_id (get_keyset h)"
proof -
  from assms
  have ex: "\<forall>k\<in>set (key (get_keyset h)). \<exists>pk. ExtractPublicKey registry k = Inr pk"
    by (simp add: ExtractPublicKey_Inr)
  from loop_total [OF ex, of new_Keyset] obtain res where
    "GetPublicKeysetHandle_loop registry (key (get_keyset h)) new_Keyset = Inr res" ..
  then obtain h' where h': "GetPublicKeysetHandle registry h = Inr h'"
    by (simp add: GetPublicKeysetHandle_def)
  note pid = GetPublicKeysetHandle_Inr(1) [OF h']
  note rel = GetPublicKeysetHandle_keys_related [OF h']
  have len: "length (key (get_keyset h')) = length (key (get_keyset h))"
    using rel by (simp add: list_all2_lengthD)
  have ids: "map key_id (key (get_keyset h')) = map key_id (key (get_keyset h))"
    using rel by (induction rule: list_all2_induct) (auto simp: ExtractPublicKey_Inr)
  have sts: "map status (key (get_keyset h')) = map status (key (get_keyset h))"
    using rel by (induction rule: list_all2_induct) (auto simp: ExtractPublicKey_Inr)
  have pre: "map output_prefix_type (key (get_keyset h')) =
               map output_prefix_type (key (get_keyset h))"
    using rel by (induction rule: list_all2_induct) (auto simp: ExtractPublicKey_Inr)
  have kd: "map (\<lambda>k'. Inr (key_data k')) (key (get_keyset h')) =
             map (\<lambda>k. registry (type_url (key_data k)) (key_value (key_data k)))
               (key (get_keyset h))"
    using rel by (induction rule: list_all2_induct) (auto simp: ExtractPublicKey_Inr)
  from h' len ids sts pre kd pid show ?thesis by blast
qed

theorem GetPublicKeysetHandle_entries_witness:
  "key_material_type (key_data example_private_key) = ASYMMETRIC_PRIVATE \<and>
   example_registry (type_url (key_data example_private_key))
       (key_value (key_data example_private_key)) =
     Inr \<lparr>type_url = ''type.public'', key_value = ''terces'',
          key_material_type = ASYMMETRIC_PUBLIC\<rparr> \<and>
   GetPublicKeysetHandle example_registry example_handle =
     Inr \<lparr>keyset_member =
            \<lparr>primary_key_id = 7,
               key = [\<lparr>key_data = \<lparr>type_url = ''type.public'', key_value = ''terces'',
                                    key_material_type = ASYMMETRIC_PUBLIC\<rparr>,
                       status = 1, key_id = 7, output_prefix_type = 1\<rparr>]\<rparr>\<rparr> \<and>
   (\<exists>h'. GetPublicKeysetHandle example_registry example_handle = Inr h' \<and>
      length (key (get_keyset h')) = 1 \<and>
      map key_id (key (get_keyset h')) = [7] \<and>
      primary_key_id (get_keyset h') = 7)"
  using GetPublicKeysetHandle_entries [of example_handle example_registry]
  by (simp add: operation_defs example_defs)

text \<open>
  C3, as the code has it: the key data of a derived key, its classification included, is
  the key data the registry returned. The classification of the derived key is
  asymmetric-public exactly when the registry's key data says so.
\<close>

theorem GetPublicKeysetHandle_classification_from_registry:
  assumes "GetPublicKeysetHandle registry h = Inr h'"
  shows "list_all2
           (\<lambda>k k'. key_material_type (key_data k) = ASYMMETRIC_PRIVATE \<and>
              (\<exists>kd. registry (type_url (key_data k)) (key_value (key_data k)) = Inr kd \<and>
                 key_data k' = kd \<and>
                 (key_material_type (key_data k') = ASYMMETRIC_PUBLIC \<longleftrightarrow>
                    key_material_type kd = ASYMMETRIC_PUBLIC)))
           (key (get_keyset h)) (key (get_keyset h'))"
  using GetPublicKeysetHandle_keys_related [OF assms]
  by (rule list_all2_mono) (auto simp: ExtractPublicKey_Inr)

theorem GetPublicKeysetHandle_classification_from_registry_witness:
  "GetPublicKeysetHandle example_registry example_handle =
     Inr \<lparr>keyset_member =
            \<lparr>primary_key_id = 7,
               key = [\<lparr>key_data = \<lparr>type_url = ''type.public'', key_value = ''terces'',
                                    key_material_type = ASYMMETRIC_PUBLIC\<rparr>,
                       status = 1, key_id = 7, output_prefix_type = 1\<rparr>]\<rparr>\<rparr> \<and>
   example_registry ''type.private'' ''secret'' =
     Inr \<lparr>type_url = ''type.public'', key_value = ''terces'',
          key_material_type = ASYMMETRIC_PUBLIC\<rparr>"
  using GetPublicKeysetHandle_classification_from_registry
    [of example_registry example_handle
      "\<lparr>keyset_member =
            \<lparr>primary_key_id = 7,
               key = [\<lparr>key_data = \<lparr>type_url = ''type.public'', key_value = ''terces'',
                                    key_material_type = ASYMMETRIC_PUBLIC\<rparr>,
                       status = 1, key_id = 7, output_prefix_type = 1\<rparr>]\<rparr>\<rparr>"]
  by (simp add: operation_defs example_defs)

text \<open>
  C3 as it is stated fails: with a registry that answers with key data classified as
  symmetric, the asymmetric-private key is processed successfully and the derived key is
  classified as symmetric.
\<close>

theorem GetPublicKeysetHandle_keeps_registry_classification:
  "key_material_type (key_data example_private_key) = ASYMMETRIC_PRIVATE \<and>
   GetPublicKeysetHandle symmetric_registry example_handle =
     Inr \<lparr>keyset_member =
            \<lparr>primary_key_id = 7,
               key = [\<lparr>key_data = \<lparr>type_url = ''type.private'', key_value = ''secret'',
                                    key_material_type = SYMMETRIC\<rparr>,
                       status = 1, key_id = 7, output_prefix_type = 1\<rparr>]\<rparr>\<rparr> \<and>
   SYMMETRIC \<noteq> ASYMMETRIC_PUBLIC"
  by (simp add: operation_defs example_defs)

text \<open>
  C4, as the code has it: a keyset with a key that is not asymmetric-private makes
  \<^verbatim>\<open>GetPublicKeysetHandle\<close> fail: it returns a status and no handle. The status is the
  invalid-input error whenever the registry answers with key data for every key before
  the first key that is not asymmetric-private.
\<close>

theorem GetPublicKeysetHandle_non_private_fails:
  assumes "\<exists>k \<in> set (key (get_keyset h)). key_material_type (key_data k) \<noteq> ASYMMETRIC_PRIVATE"
  shows "(\<exists>st. GetPublicKeysetHandle registry h = Inl st) \<and>
         ((\<forall>k \<in> set (takeWhile (\<lambda>k. key_material_type (key_data k) = ASYMMETRIC_PRIVATE)
                        (key (get_keyset h))).
              \<exists>kd. registry (type_url (key_data k)) (key_value (key_data k)) = Inr kd) \<longrightarrow>
          GetPublicKeysetHandle registry h =
            Inl (Status INVALID_ARGUMENT
                   ''Key material is not of type KeyData::ASYMMETRIC_PRIVATE''))"
proof (intro conjI impI)
  from loop_non_private [OF assms, of registry new_Keyset]
  show "\<exists>st. GetPublicKeysetHandle registry h = Inl st"
    by (auto simp: GetPublicKeysetHandle_def)
next
  let ?P = "\<lambda>k. key_material_type (key_data k) = ASYMMETRIC_PRIVATE"
  let ?ks = "key (get_keyset h)"
  assume derivable: "\<forall>k\<in>set (takeWhile ?P ?ks).
    \<exists>kd. registry (type_url (key_data k)) (key_value (key_data k)) = Inr kd"
  from split_at_first_non_private [OF assms] obtain k ks2 where
    ks: "?ks = takeWhile ?P ?ks @ k # ks2" and k: "\<not> ?P k" by blast
  have "\<forall>k\<in>set (takeWhile ?P ?ks). \<exists>pk. ExtractPublicKey registry k = Inr pk"
  proof
    fix k' assume k': "k' \<in> set (takeWhile ?P ?ks)"
    then have "?P k'" by (rule set_takeWhileD [THEN conjunct2])
    with derivable k' show "\<exists>pk. ExtractPublicKey registry k' = Inr pk"
      by (auto simp: ExtractPublicKey_Inr)
  qed
  from loop_first_error [OF this ExtractPublicKey_not_private [OF k], of ks2 new_Keyset]
  have "GetPublicKeysetHandle_loop registry ?ks new_Keyset =
      Inl (Status INVALID_ARGUMENT ''Key material is not of type KeyData::ASYMMETRIC_PRIVATE'')"
    using ks by simp
  then show "GetPublicKeysetHandle registry h =
      Inl (Status INVALID_ARGUMENT ''Key material is not of type KeyData::ASYMMETRIC_PRIVATE'')"
    by (simp add: GetPublicKeysetHandle_def)
qed

theorem GetPublicKeysetHandle_non_private_fails_witness:
  "example_symmetric_key \<in> set (key (get_keyset mixed_handle)) \<and>
   key_material_type (key_data example_symmetric_key) \<noteq> ASYMMETRIC_PRIVATE \<and>
   GetPublicKeysetHandle example_registry mixed_handle =
     Inl (Status INVALID_ARGUMENT ''Key material is not of type KeyData::ASYMMETRIC_PRIVATE'')"
  using GetPublicKeysetHandle_non_private_fails [of mixed_handle example_registry]
  by (simp add: operation_defs example_defs)

text \<open>
  C4 as it is stated fails: the keyset holds a symmetric key after an asymmetric-private
  key whose type the registry does not know. The operation fails with the registry's
  status, whose code is not the invalid-input code.
\<close>

theorem GetPublicKeysetHandle_registry_error_comes_first:
  "example_symmetric_key \<in> set (key (get_keyset unregistered_handle)) \<and>
   key_material_type (key_data example_symmetric_key) \<noteq> ASYMMETRIC_PRIVATE \<and>
   GetPublicKeysetHandle example_registry unregistered_handle =
     Inl (Status NOT_FOUND ''No manager for the type'') \<and>
   NOT_FOUND \<noteq> INVALID_ARGUMENT"
  by (simp add: operation_defs example_defs)

text \<open>
  C9: on a handle whose keyset has no key, \<^verbatim>\<open>GetPublicKeysetHandle\<close> succeeds, and the
  handle it returns has a keyset with no key and the same primary key id.
\<close>

theorem GetPublicKeysetHandle_empty_keyset:
  "GetPublicKeysetHandle registry \<lparr>keyset_member = \<lparr>primary_key_id = p, key = []\<rparr>\<rparr> =
     Inr \<lparr>keyset_member = \<lparr>primary_key_id = p, key = []\<rparr>\<rparr>"
  by (simp add: GetPublicKeysetHandle_def get_keyset_def new_Keyset_def)

text \<open>
  C10: \<^verbatim>\<open>GetPublicKeysetHandle\<close>, called on a handle object allocated in the store,
  returns: either the status that \<open>GetPublicKeysetHandle\<close> computes from the handle, or
  the address of a new handle object that holds the handle it computes. In both cases the
  handle object it was called on is, in the store after the call, what it was before the
  call: the same keys and the same primary key id. So is the object at every other
  address that was allocated before the call.
\<close>

theorem GetPublicKeysetHandle_leaves_handle:
  assumes "objects s this = Some (Handle_Object h)" and "this < next_address s"
  shows "\<exists>result s'. GetPublicKeysetHandle_store registry this s = Some (result, s') \<and>
           (case GetPublicKeysetHandle registry h of
              Inl st \<Rightarrow> result = Inl st
            | Inr h' \<Rightarrow> (\<exists>a. result = Inr a \<and> objects s' a = Some (Handle_Object h'))) \<and>
           objects s' this = Some (Handle_Object h) \<and>
           (\<forall>a < next_address s. objects s' a = objects s a)"
proof -
  from GetPublicKeysetHandle_store_eq [OF assms, of registry] obtain result s' where
    call: "GetPublicKeysetHandle_store registry this s = Some (result, s')"
    and res: "case GetPublicKeysetHandle registry h of
              Inl st \<Rightarrow> result = Inl st
            | Inr h' \<Rightarrow>
                (\<exists>a. result = Inr a \<and> next_address s \<le> a \<and>
                   objects s' a = Some (Handle_Object h'))"
    and frame: "\<forall>a < next_address s. objects s' a = objects s a"
    by blast
  from res have "case GetPublicKeysetHandle registry h of
              Inl st \<Rightarrow> result = Inl st
            | Inr h' \<Rightarrow> (\<exists>a. result = Inr a \<and> objects s' a = Some (Handle_Object h'))"
    by (auto split: sum.splits)
  moreover from frame assms have "objects s' this = Some (Handle_Object h)" by simp
  ultimately show ?thesis using call frame by blast
qed

theorem GetPublicKeysetHandle_leaves_handle_witness:
  "objects example_store 0 = Some (Handle_Object example_handle) \<and>
   objects example_store 1 = Some (Handle_Object mixed_handle) \<and>
   next_address example_store = 2 \<and>
   (\<exists>s'. GetPublicKeysetHandle_store example_registry 0 example_store = Some (Inr 5, s') \<and>
      objects s' 0 = Some (Handle_Object example_handle) \<and>
      objects s' 1 = Some (Handle_Object mixed_handle)) \<and>
   (\<exists>s'. GetPublicKeysetHandle_store example_registry 1 example_store =
        Some (Inl (Status INVALID_ARGUMENT
                     ''Key material is not of type KeyData::ASYMMETRIC_PRIVATE''), s') \<and>
      objects s' 0 = Some (Handle_Object example_handle) \<and>
      objects s' 1 = Some (Handle_Object mixed_handle))"
proof -
  have h0: "objects example_store 0 = Some (Handle_Object example_handle)"
    and h1: "objects example_store 1 = Some (Handle_Object mixed_handle)"
    and nx: "next_address example_store = 2"
    by (simp_all add: example_store_def)
  have r0: "map_option fst (GetPublicKeysetHandle_store example_registry 0 example_store) =
      Some (Inr 5)"
    by (simp add: store_operation_defs operation_defs example_defs example_store_def)
  have r1: "map_option fst (GetPublicKeysetHandle_store example_registry 1 example_store) =
      Some (Inl (Status INVALID_ARGUMENT
                   ''Key material is not of type KeyData::ASYMMETRIC_PRIVATE''))"
    by (simp add: store_operation_defs operation_defs example_defs example_store_def)
  from GetPublicKeysetHandle_leaves_handle [OF h0, of example_registry]
    GetPublicKeysetHandle_leaves_handle [OF h1, of example_registry] h0 h1 nx r0 r1
  show ?thesis by auto
qed

end
